theory Spec2Isabelle
  imports Main "HOL-Library.Word"
begin

section \<open>ASF strategy measurements (daemon/fw/asf-measurements.hpp)\<close>

text \<open>
  The header declares three classes: \<open>FaceInfo\<close>, \<open>NamespaceInfo\<close> and
  \<open>AsfMeasurements\<close>. This theory embeds \<open>FaceInfo\<close> and the lifetime part of
  \<open>AsfMeasurements\<close>. Member functions whose bodies are in the header are embedded
  from those bodies. Member functions that the header only declares
  (\<open>FaceInfo::scheduleTimeout\<close>, \<open>FaceInfo::cancelTimeout\<close>, the constructor of
  \<open>AsfMeasurements\<close> and \<open>AsfMeasurements::extendLifetime\<close>) are modelled from the
  specification and marked as such.
\<close>

subsection \<open>Durations, names and errors\<close>

text \<open>
  \<open>time::nanoseconds\<close> and \<open>time::milliseconds\<close> are \<open>std::chrono\<close> durations with a
  signed 64-bit tick count; \<open>sint\<close> reads the count and \<open><s\<close> compares two of them.
  \<open>size_t\<close> is an unsigned 64-bit count. A \<open>Name\<close> is a sequence of components.
\<close>

type_synonym nanoseconds = "64 word"
type_synonym milliseconds = "64 word"
type_synonym size_t = "64 word"
type_synonym Name = "string list"

text \<open>A failed \<open>BOOST_ASSERT\<close> aborts the process; it is the only error of this code.\<close>

datatype error = AssertionFailed

subsection \<open>The external RTT estimator\<close>

text \<open>
  \<open>ndn::util::RttEstimator\<close> belongs to another library. The code under study only
  constructs it from shared options and calls \<open>addMeasurement\<close> and \<open>getSmoothedRtt\<close>.
  The estimator is represented by what determines it: its options and the samples it has
  been given, oldest first. What it computes from them is a parameter.
\<close>

record 'opts RttEstimator =
  options :: 'opts
  samples :: "nanoseconds list"

definition RttEstimator_ctor :: "'opts \<Rightarrow> 'opts RttEstimator" where
  "RttEstimator_ctor opts = \<lparr>options = opts, samples = []\<rparr>"

definition addMeasurement :: "nanoseconds \<Rightarrow> 'opts RttEstimator \<Rightarrow> 'opts RttEstimator" where
  "addMeasurement rtt est = est\<lparr>samples := samples est @ [rtt]\<rparr>"

subsection \<open>The external scheduler\<close>

text \<open>
  The scheduler offers \<open>schedule(duration, callback)\<close>, which returns a handle, and
  cancellation of a handle. Its state is the list of events that have been scheduled and
  have neither fired nor been cancelled, in scheduling order, and the next unused event
  identifier. A \<open>ScopedEventId\<close> is an optional event identifier; it tests true exactly
  when it holds an event that is still pending.
\<close>

type_synonym EventId = nat

record 'cb Scheduler =
  pending :: "(EventId \<times> nanoseconds \<times> 'cb) list"
  nextEvent :: EventId

type_synonym ScopedEventId = "EventId option"

definition Scheduler_empty :: "'cb Scheduler" where
  "Scheduler_empty = \<lparr>pending = [], nextEvent = 0\<rparr>"

definition schedule :: "nanoseconds \<Rightarrow> 'cb \<Rightarrow> 'cb Scheduler \<Rightarrow> EventId \<times> 'cb Scheduler" where
  "schedule after cb s =
     (nextEvent s,
      s\<lparr>pending := pending s @ [(nextEvent s, after, cb)], nextEvent := Suc (nextEvent s)\<rparr>)"

definition cancel :: "EventId \<Rightarrow> 'cb Scheduler \<Rightarrow> 'cb Scheduler" where
  "cancel e s = s\<lparr>pending := filter (\<lambda>ev. fst ev \<noteq> e) (pending s)\<rparr>"

definition isPending :: "EventId \<Rightarrow> 'cb Scheduler \<Rightarrow> bool" where
  "isPending e s = (e \<in> set (map fst (pending s)))"

text \<open>
  An event that fires leaves the pending list; its callback is handed to the caller of
  \<open>fire\<close>. An event that is not pending cannot fire.
\<close>

definition fire :: "EventId \<Rightarrow> 'cb Scheduler \<Rightarrow> ('cb \<times> 'cb Scheduler) option" where
  "fire e s =
     (case map_of (pending s) e of
        None \<Rightarrow> None
      | Some (after, cb) \<Rightarrow> Some (cb, cancel e s))"

definition handleValid :: "ScopedEventId \<Rightarrow> 'cb Scheduler \<Rightarrow> bool" where
  "handleValid h s = (case h of None \<Rightarrow> False | Some e \<Rightarrow> isPending e s)"

subsection \<open>FaceInfo\<close>

record 'opts FaceInfo =
  m_rttEstimator :: "'opts RttEstimator"
  m_lastRtt :: nanoseconds
  m_lastInterestName :: Name
  m_nTimeouts :: size_t
  m_measurementExpiration :: ScopedEventId
  m_timeoutEvent :: ScopedEventId

definition RTT_NO_MEASUREMENT :: nanoseconds where
  "RTT_NO_MEASUREMENT = - 1"

definition RTT_TIMEOUT :: nanoseconds where
  "RTT_TIMEOUT = - 2"

text \<open>
  The constructor moves the options into the estimator; every other member takes its
  default member initializer, and a default-constructed \<open>Name\<close> and \<open>ScopedEventId\<close>
  are empty.
\<close>

definition FaceInfo_ctor :: "'opts \<Rightarrow> 'opts FaceInfo" where
  "FaceInfo_ctor opts =
     \<lparr>m_rttEstimator = RttEstimator_ctor opts,
      m_lastRtt = RTT_NO_MEASUREMENT,
      m_lastInterestName = [],
      m_nTimeouts = 0,
      m_measurementExpiration = None,
      m_timeoutEvent = None\<rparr>"

definition isTimeoutScheduled :: "'opts FaceInfo \<Rightarrow> 'cb Scheduler \<Rightarrow> bool" where
  "isTimeoutScheduled fi s = handleValid (m_timeoutEvent fi) s"

definition recordRtt :: "nanoseconds \<Rightarrow> 'opts FaceInfo \<Rightarrow> 'opts FaceInfo" where
  "recordRtt rtt fi =
     (let fi1 = fi\<lparr>m_lastRtt := rtt\<rparr>
      in fi1\<lparr>m_rttEstimator := addMeasurement rtt (m_rttEstimator fi1)\<rparr>)"

definition getLastRtt :: "'opts FaceInfo \<Rightarrow> nanoseconds" where
  "getLastRtt fi = m_lastRtt fi"

definition getSrtt :: "('opts RttEstimator \<Rightarrow> nanoseconds) \<Rightarrow> 'opts FaceInfo \<Rightarrow> nanoseconds" where
  "getSrtt getSmoothedRtt fi = getSmoothedRtt (m_rttEstimator fi)"

definition getNTimeouts :: "'opts FaceInfo \<Rightarrow> size_t" where
  "getNTimeouts fi = m_nTimeouts fi"

definition setNTimeouts :: "size_t \<Rightarrow> 'opts FaceInfo \<Rightarrow> 'opts FaceInfo" where
  "setNTimeouts nTimeouts fi = fi\<lparr>m_nTimeouts := nTimeouts\<rparr>"

text \<open>
  Modelled from the spec: \<open>FaceInfo::cancelTimeout\<close>, whose body is not in the header.
  The specification: it "cancels the pending timer if any; a no-op if none is pending".
  The \<open>prefix\<close> argument has no role in that description.
\<close>

definition cancelTimeout ::
  "Name \<Rightarrow> 'opts FaceInfo \<times> 'cb Scheduler \<Rightarrow> 'opts FaceInfo \<times> 'cb Scheduler" where
  "cancelTimeout prefix st =
     (case st of (fi, s) \<Rightarrow>
        (case m_timeoutEvent fi of
           None \<Rightarrow> (fi, s)
         | Some e \<Rightarrow>
             if isPending e s then (fi\<lparr>m_timeoutEvent := None\<rparr>, cancel e s) else (fi, s)))"

text \<open>
  Modelled from the spec: \<open>FaceInfo::scheduleTimeout\<close>, whose body is not in the header.
  The specification: it "arms a new one-shot retransmission-timeout timer for
  requestName after a duration computed by the caller", "returns the duration
  scheduled", and "overwrites -- cancelling first -- any previously pending timeout
  timer". The request name is kept in \<open>m_lastInterestName\<close>, "the most recent request
  name this face's timeout was associated with". The duration is the argument \<open>rto\<close>.
\<close>

definition scheduleTimeout ::
  "Name \<Rightarrow> nanoseconds \<Rightarrow> 'cb \<Rightarrow> 'opts FaceInfo \<times> 'cb Scheduler
     \<Rightarrow> nanoseconds \<times> 'opts FaceInfo \<times> 'cb Scheduler" where
  "scheduleTimeout interestName rto cb st =
     (case st of (fi, s) \<Rightarrow>
        (let s1 = (case m_timeoutEvent fi of None \<Rightarrow> s | Some old \<Rightarrow> cancel old s);
             (e, s2) = schedule rto cb s1
         in (rto, fi\<lparr>m_lastInterestName := interestName, m_timeoutEvent := Some e\<rparr>, s2)))"

definition recordTimeout ::
  "Name \<Rightarrow> 'opts FaceInfo \<times> 'cb Scheduler \<Rightarrow> 'opts FaceInfo \<times> 'cb Scheduler" where
  "recordTimeout interestName st =
     (case st of (fi, s) \<Rightarrow> cancelTimeout interestName (fi\<lparr>m_lastRtt := RTT_TIMEOUT\<rparr>, s))"

subsection \<open>Calls on a FaceInfo\<close>

text \<open>
  The mutating operations of a \<open>FaceInfo\<close>, as the forwarding pipeline and the event
  loop issue them. \<open>TimerFires e\<close> is the scheduler running event \<open>e\<close>: the event leaves
  the pending list; what its callback does to the \<open>FaceInfo\<close> is further calls.
\<close>

datatype 'cb FaceInfoCall =
    ScheduleTimeout Name nanoseconds 'cb
  | CancelTimeout Name
  | RecordRtt nanoseconds
  | RecordTimeout Name
  | SetNTimeouts size_t
  | TimerFires EventId

fun call ::
  "'cb FaceInfoCall \<Rightarrow> 'opts FaceInfo \<times> 'cb Scheduler \<Rightarrow> 'opts FaceInfo \<times> 'cb Scheduler" where
  "call (ScheduleTimeout interestName rto cb) st = snd (scheduleTimeout interestName rto cb st)"
| "call (CancelTimeout prefix) st = cancelTimeout prefix st"
| "call (RecordRtt rtt) st = (recordRtt rtt (fst st), snd st)"
| "call (RecordTimeout interestName) st = recordTimeout interestName st"
| "call (SetNTimeouts nTimeouts) st = (setNTimeouts nTimeouts (fst st), snd st)"
| "call (TimerFires e) st =
     (fst st, case fire e (snd st) of None \<Rightarrow> snd st | Some (cb, s') \<Rightarrow> s')"

fun calls ::
  "'cb FaceInfoCall list \<Rightarrow> 'opts FaceInfo \<times> 'cb Scheduler \<Rightarrow> 'opts FaceInfo \<times> 'cb Scheduler" where
  "calls [] st = st"
| "calls (c # cs) st = calls cs (call c st)"

text \<open>The caller's obligation on \<open>recordRtt\<close>: the sample is a positive duration.\<close>

fun positiveSample :: "'cb FaceInfoCall \<Rightarrow> bool" where
  "positiveSample (RecordRtt rtt) = (0 <s rtt)"
| "positiveSample _ = True"

definition lastRttValid :: "nanoseconds \<Rightarrow> bool" where
  "lastRttValid rtt = (rtt = RTT_NO_MEASUREMENT \<or> rtt = RTT_TIMEOUT \<or> 0 <s rtt)"




subsection \<open>AsfMeasurements\<close>

text \<open>
  The measurements table is an external collaborator that the class holds by reference;
  the model passes it explicitly. It maps the name of each entry to the entry's expiry, a
  point in time counted in milliseconds. Its interface gives the parent of an entry (none
  for the root, the empty name) and extends the lifetime of an entry so that the entry
  lives at least \<open>lifetime\<close> from \<open>now\<close>.
\<close>

type_synonym time_point = int
type_synonym Measurements = "Name \<rightharpoonup> time_point"

definition getEntryParent :: "Name \<Rightarrow> Name option" where
  "getEntryParent name = (if name = [] then None else Some (butlast name))"

definition extendEntryLifetime ::
  "time_point \<Rightarrow> Name \<Rightarrow> int \<Rightarrow> Measurements \<Rightarrow> Measurements" where
  "extendEntryLifetime now name lifetime ms =
     (case ms name of
        None \<Rightarrow> ms
      | Some expiry \<Rightarrow> ms(name \<mapsto> max expiry (now + lifetime)))"

record 'opts AsfMeasurements =
  m_measurementsLifetime :: milliseconds
  m_rttEstimatorOpts :: 'opts

text \<open>\<open>5_min\<close> is a count of minutes; as \<open>time::milliseconds\<close> it is 60000 ticks each.\<close>

definition minutes :: "64 word \<Rightarrow> milliseconds" where
  "minutes n = n * 60000"

definition DEFAULT_MEASUREMENTS_LIFETIME :: milliseconds where
  "DEFAULT_MEASUREMENTS_LIFETIME = minutes 5"

text \<open>
  Modelled from the spec: the constructor of \<open>AsfMeasurements\<close>, whose body is not in the
  header. The specification gives the class "shared RTT-estimator options created
  once"; \<open>m_measurementsLifetime\<close> keeps the default member initializer of the header.
\<close>

definition AsfMeasurements_ctor :: "'opts \<Rightarrow> 'opts AsfMeasurements" where
  "AsfMeasurements_ctor opts =
     \<lparr>m_measurementsLifetime = DEFAULT_MEASUREMENTS_LIFETIME, m_rttEstimatorOpts = opts\<rparr>"

definition setMeasurementsLifetime ::
  "milliseconds \<Rightarrow> 'opts AsfMeasurements \<Rightarrow> error + 'opts AsfMeasurements" where
  "setMeasurementsLifetime measurementsLifetime m =
     (if \<not> (0 <s measurementsLifetime) then Inl AssertionFailed
      else Inr (m\<lparr>m_measurementsLifetime := measurementsLifetime\<rparr>))"

definition getMeasurementsLifetime :: "'opts AsfMeasurements \<Rightarrow> milliseconds" where
  "getMeasurementsLifetime m = m_measurementsLifetime m"

text \<open>
  Modelled from the spec: \<open>AsfMeasurements::extendLifetime\<close>, whose body is not in the
  header. The specification: it "extends the given store entry's own expiry AND
  recursively extends every strict ancestor of that entry up to the store's root".
  The lifetime is the configured \<open>m_measurementsLifetime\<close>.
\<close>

function extendLifetimeFrom ::
  "time_point \<Rightarrow> int \<Rightarrow> Name \<Rightarrow> Measurements \<Rightarrow> Measurements" where
  "extendLifetimeFrom now lifetime me ms =
     (let ms1 = extendEntryLifetime now me lifetime ms
      in case getEntryParent me of
           None \<Rightarrow> ms1
         | Some parent \<Rightarrow> extendLifetimeFrom now lifetime parent ms1)"
  by pat_completeness auto
termination
  by (relation "measure (\<lambda>(now, lifetime, me, ms). length me)")
    (auto simp: getEntryParent_def split: if_splits)

declare extendLifetimeFrom.simps [simp del]

definition extendLifetime ::
  "'opts AsfMeasurements \<Rightarrow> time_point \<Rightarrow> Name \<Rightarrow> Measurements \<Rightarrow> Measurements" where
  "extendLifetime m now me ms = extendLifetimeFrom now (sint (m_measurementsLifetime m)) me ms"

subsection \<open>Invariants of the timeout slot\<close>




section \<open>Properties\<close>

subsection \<open>Frame lemmas of the timer operations\<close>

lemma cancelTimeout_not_scheduled:
  "\<not> isTimeoutScheduled (fst (cancelTimeout prefix st)) (snd (cancelTimeout prefix st))"
  by (cases st)
    (auto simp: cancelTimeout_def isTimeoutScheduled_def handleValid_def split: option.splits)

lemma cancelTimeout_frame:
  "m_lastRtt (fst (cancelTimeout prefix st)) = m_lastRtt (fst st)"
  "m_nTimeouts (fst (cancelTimeout prefix st)) = m_nTimeouts (fst st)"
  "m_rttEstimator (fst (cancelTimeout prefix st)) = m_rttEstimator (fst st)"
  by (cases st; simp add: cancelTimeout_def split: option.splits)+

lemma scheduleTimeout_frame:
  "m_lastRtt (fst (snd (scheduleTimeout n rto cb st))) = m_lastRtt (fst st)"
  by (cases st) (simp add: scheduleTimeout_def schedule_def Let_def split: option.splits)

lemma cancel_absent: "\<not> isPending e s \<Longrightarrow> filter (\<lambda>ev. fst ev \<noteq> e) (pending s) = pending s"
  by (auto simp: isPending_def filter_id_conv)

lemma cancelTimeout_scheduler:
  "m_timeoutEvent fi = Some e \<Longrightarrow>
   \<not> isPending e (snd (cancelTimeout prefix (fi, s)))
   \<and> pending (snd (cancelTimeout prefix (fi, s))) = filter (\<lambda>ev. fst ev \<noteq> e) (pending s)
   \<and> nextEvent (snd (cancelTimeout prefix (fi, s))) = nextEvent s"
proof (cases "isPending e s")
  case True
  assume "m_timeoutEvent fi = Some e"
  with True show ?thesis
    by (auto simp: cancelTimeout_def cancel_def isPending_def)
next
  case False
  assume "m_timeoutEvent fi = Some e"
  with False cancel_absent [OF False] show ?thesis
    by (simp add: cancelTimeout_def)
qed

lemma cancelTimeout_no_handle:
  "m_timeoutEvent fi = None \<Longrightarrow> snd (cancelTimeout prefix (fi, s)) = s"
  by (simp add: cancelTimeout_def)

subsection \<open>A freshly constructed FaceInfo\<close>

text \<open>
  C9. A freshly constructed \<open>FaceInfo\<close> reports the sentinel \<open>RTT_NO_MEASUREMENT\<close> as
  its last RTT and zero timeouts, and has no timeout scheduled, whatever the scheduler
  holds.
\<close>

theorem FaceInfo_ctor_fresh:
  "getLastRtt (FaceInfo_ctor opts) = RTT_NO_MEASUREMENT
   \<and> getNTimeouts (FaceInfo_ctor opts) = 0
   \<and> isTimeoutScheduled (FaceInfo_ctor opts) s = False"
  by (simp add: getLastRtt_def getNTimeouts_def isTimeoutScheduled_def handleValid_def
      FaceInfo_ctor_def)

subsection \<open>recordRtt\<close>

text \<open>
  C4. After \<open>recordRtt(d)\<close> the last RTT is the raw sample \<open>d\<close>, the estimator has
  received \<open>d\<close> as its newest sample and keeps its options, both timer handles are
  unchanged, \<open>isTimeoutScheduled\<close> answers as before, and the scheduler is untouched.
  This holds for every \<open>d\<close>, so in particular for every positive one.
\<close>

theorem recordRtt_result:
  "getLastRtt (recordRtt d fi) = d
   \<and> samples (m_rttEstimator (recordRtt d fi)) = samples (m_rttEstimator fi) @ [d]
   \<and> options (m_rttEstimator (recordRtt d fi)) = options (m_rttEstimator fi)
   \<and> m_timeoutEvent (recordRtt d fi) = m_timeoutEvent fi
   \<and> m_measurementExpiration (recordRtt d fi) = m_measurementExpiration fi
   \<and> isTimeoutScheduled (recordRtt d fi) s = isTimeoutScheduled fi s
   \<and> snd (call (RecordRtt d) (fi, s)) = s"
  by (simp add: recordRtt_def getLastRtt_def addMeasurement_def isTimeoutScheduled_def)

subsection \<open>recordTimeout\<close>

text \<open>
  C2. After \<open>recordTimeout(name)\<close>, from any state and for any name, the last RTT is
  the sentinel \<open>RTT_TIMEOUT\<close> and no timeout is scheduled. The event that
  \<open>m_timeoutEvent\<close> held has left the scheduler: it is no longer pending, the pending
  list is the former one without it, and no event was added. With an empty handle the
  scheduler is untouched.
\<close>

theorem recordTimeout_result:
  "getLastRtt (fst (recordTimeout interestName (fi, s))) = RTT_TIMEOUT
   \<and> isTimeoutScheduled (fst (recordTimeout interestName (fi, s)))
        (snd (recordTimeout interestName (fi, s))) = False
   \<and> (m_timeoutEvent fi = Some e \<longrightarrow>
        \<not> isPending e (snd (recordTimeout interestName (fi, s)))
        \<and> pending (snd (recordTimeout interestName (fi, s)))
            = filter (\<lambda>ev. fst ev \<noteq> e) (pending s)
        \<and> nextEvent (snd (recordTimeout interestName (fi, s))) = nextEvent s)
   \<and> (m_timeoutEvent fi = None \<longrightarrow> snd (recordTimeout interestName (fi, s)) = s)"
proof -
  have "m_timeoutEvent fi = Some e \<longrightarrow>
        \<not> isPending e (snd (recordTimeout interestName (fi, s)))
        \<and> pending (snd (recordTimeout interestName (fi, s)))
            = filter (\<lambda>ev. fst ev \<noteq> e) (pending s)
        \<and> nextEvent (snd (recordTimeout interestName (fi, s))) = nextEvent s"
    using cancelTimeout_scheduler [of "fi\<lparr>m_lastRtt := RTT_TIMEOUT\<rparr>" e interestName s]
    by (simp add: recordTimeout_def)
  moreover have "m_timeoutEvent fi = None \<longrightarrow> snd (recordTimeout interestName (fi, s)) = s"
    by (simp add: recordTimeout_def cancelTimeout_no_handle)
  ultimately show ?thesis
    by (simp add: recordTimeout_def getLastRtt_def cancelTimeout_frame
        cancelTimeout_not_scheduled)
qed

theorem recordTimeout_result_witness:
  "m_timeoutEvent ((FaceInfo_ctor ())\<lparr>m_timeoutEvent := Some 3\<rparr>) = Some 3
   \<and> isPending 3 \<lparr>pending = [(2, 50, Suc), (3, 100, Suc)], nextEvent = 4\<rparr>
   \<and> \<not> isPending 3 (snd (recordTimeout [''a'']
        ((FaceInfo_ctor ())\<lparr>m_timeoutEvent := Some 3\<rparr>,
         \<lparr>pending = [(2, 50, Suc), (3, 100, Suc)], nextEvent = 4\<rparr>)))
   \<and> pending (snd (recordTimeout [''a'']
        ((FaceInfo_ctor ())\<lparr>m_timeoutEvent := Some 3\<rparr>,
         \<lparr>pending = [(2, 50, Suc), (3, 100, Suc)], nextEvent = 4\<rparr>))) = [(2, 50, Suc)]
   \<and> m_timeoutEvent (FaceInfo_ctor ()) = None
   \<and> snd (recordTimeout [''a'']
        (FaceInfo_ctor (), \<lparr>pending = [(2, 50, Suc), (3, 100, Suc)], nextEvent = 4\<rparr>))
       = \<lparr>pending = [(2, 50, Suc), (3, 100, Suc)], nextEvent = 4\<rparr>"
  using recordTimeout_result [of "[''a'']" "(FaceInfo_ctor ())\<lparr>m_timeoutEvent := Some 3\<rparr>"
      "\<lparr>pending = [(2, 50, Suc), (3, 100, Suc)], nextEvent = 4\<rparr>" 3]
    recordTimeout_result [of "[''a'']" "FaceInfo_ctor ()"
      "\<lparr>pending = [(2, 50, Suc), (3, 100, Suc)], nextEvent = 4\<rparr>" 3]
  by (simp add: FaceInfo_ctor_def isPending_def)

text \<open>
  C8. \<open>recordTimeout(name)\<close> leaves the timeout counter as it was: \<open>getNTimeouts\<close>
  returns the same value before and after.
\<close>

theorem recordTimeout_keeps_nTimeouts:
  "getNTimeouts (fst (recordTimeout interestName (fi, s))) = getNTimeouts fi"
  by (simp add: recordTimeout_def getNTimeouts_def cancelTimeout_frame)

subsection \<open>cancelTimeout\<close>

text \<open>
  C7. On a \<open>FaceInfo\<close> with no pending timeout, \<open>cancelTimeout(prefix)\<close> changes neither
  the \<open>FaceInfo\<close> nor the scheduler, and no timeout is scheduled afterwards. From any
  state, a second \<open>cancelTimeout\<close> after a first changes nothing more.
\<close>

theorem cancelTimeout_noop:
  "(\<not> isTimeoutScheduled fi s \<longrightarrow>
      cancelTimeout prefix (fi, s) = (fi, s)
      \<and> isTimeoutScheduled (fst (cancelTimeout prefix (fi, s)))
           (snd (cancelTimeout prefix (fi, s))) = False)
   \<and> cancelTimeout prefix' (cancelTimeout prefix (fi, s)) = cancelTimeout prefix (fi, s)"
  by (auto simp: cancelTimeout_def isTimeoutScheduled_def handleValid_def split: option.splits)

theorem cancelTimeout_noop_witness:
  "\<not> isTimeoutScheduled (FaceInfo_ctor ()) (Scheduler_empty :: unit Scheduler)
   \<and> cancelTimeout [''a''] (FaceInfo_ctor (), Scheduler_empty :: unit Scheduler)
       = (FaceInfo_ctor (), Scheduler_empty)
   \<and> isTimeoutScheduled
        (fst (cancelTimeout [''a''] (FaceInfo_ctor (), Scheduler_empty :: unit Scheduler)))
        (snd (cancelTimeout [''a''] (FaceInfo_ctor (), Scheduler_empty :: unit Scheduler)))
       = False"
  using cancelTimeout_noop [of "FaceInfo_ctor ()" "Scheduler_empty :: unit Scheduler"
      "[''a'']" "[''a'']"]
  by (simp add: isTimeoutScheduled_def handleValid_def FaceInfo_ctor_def)

subsection \<open>The last RTT is a sentinel or a positive duration\<close>

lemma call_lastRttValid:
  "positiveSample c \<Longrightarrow> lastRttValid (m_lastRtt (fst st))
   \<Longrightarrow> lastRttValid (m_lastRtt (fst (call c st)))"
  by (cases c; cases st)
    (simp_all add: cancelTimeout_frame scheduleTimeout_frame recordRtt_def recordTimeout_def
      setNTimeouts_def lastRttValid_def)

lemma calls_lastRttValid:
  "list_all positiveSample cs \<Longrightarrow> lastRttValid (m_lastRtt (fst st))
   \<Longrightarrow> lastRttValid (m_lastRtt (fst (calls cs st)))"
  by (induction cs arbitrary: st) (simp_all add: call_lastRttValid)

text \<open>
  C6. Start from a freshly constructed \<open>FaceInfo\<close> and any scheduler, and run any
  sequence of \<open>FaceInfo\<close> operations and timer firings in which every \<open>recordRtt\<close>
  sample is positive. Then the last RTT is \<open>RTT_NO_MEASUREMENT\<close>, \<open>RTT_TIMEOUT\<close> or a
  positive duration.
\<close>

theorem lastRtt_invariant:
  "list_all positiveSample cs \<Longrightarrow>
   lastRttValid (getLastRtt (fst (calls cs (FaceInfo_ctor opts, s))))"
  by (rule calls_lastRttValid [unfolded getLastRtt_def [symmetric]])
    (simp_all add: getLastRtt_def FaceInfo_ctor_def lastRttValid_def)

theorem lastRtt_invariant_witness:
  "list_all positiveSample
     [RecordRtt 25, ScheduleTimeout [''a''] 100 (), RecordTimeout [''a''], TimerFires 0,
      CancelTimeout [], SetNTimeouts 1, RecordRtt 40]
   \<and> lastRttValid (getLastRtt (fst (calls
       [RecordRtt 25, ScheduleTimeout [''a''] 100 (), RecordTimeout [''a''], TimerFires 0,
        CancelTimeout [], SetNTimeouts 1, RecordRtt 40]
       (FaceInfo_ctor (), Scheduler_empty))))
   \<and> getLastRtt (fst (calls
       [RecordRtt 25, ScheduleTimeout [''a''] 100 (), RecordTimeout [''a''], TimerFires 0,
        CancelTimeout [], SetNTimeouts 1, RecordRtt 40]
       (FaceInfo_ctor (), Scheduler_empty :: unit Scheduler))) = 40"
  using lastRtt_invariant [of
      "[RecordRtt 25, ScheduleTimeout [''a''] 100 (), RecordTimeout [''a''], TimerFires 0,
        CancelTimeout [], SetNTimeouts 1, RecordRtt 40]" "()"
      "Scheduler_empty :: unit Scheduler"]
  by (simp add: word_sless_alt getLastRtt_def recordRtt_def cancelTimeout_frame)

subsection \<open>At most one pending timeout\<close>


















subsection \<open>The measurements lifetime\<close>

text \<open>
  C5. \<open>setMeasurementsLifetime(l)\<close> with \<open>l\<close> zero or negative fails its assertion; with
  \<open>l\<close> positive it succeeds and \<open>getMeasurementsLifetime\<close> then returns \<open>l\<close>.
\<close>

theorem setMeasurementsLifetime_contract:
  "(l \<le>s 0 \<longrightarrow> setMeasurementsLifetime l m = Inl AssertionFailed)
   \<and> (0 <s l \<longrightarrow>
        (\<exists>m'. setMeasurementsLifetime l m = Inr m' \<and> getMeasurementsLifetime m' = l))"
  by (auto simp: setMeasurementsLifetime_def getMeasurementsLifetime_def word_sless_alt
      word_sle_eq)

theorem setMeasurementsLifetime_contract_witness:
  "(0::milliseconds) \<le>s 0 \<and> (- 7 :: milliseconds) \<le>s 0 \<and> 0 <s (1500 :: milliseconds)
   \<and> setMeasurementsLifetime 0 (AsfMeasurements_ctor ()) = Inl AssertionFailed
   \<and> setMeasurementsLifetime (- 7) (AsfMeasurements_ctor ()) = Inl AssertionFailed
   \<and> (\<exists>m'. setMeasurementsLifetime 1500 (AsfMeasurements_ctor ()) = Inr m'
         \<and> getMeasurementsLifetime m' = 1500)"
  using setMeasurementsLifetime_contract [of 0 "AsfMeasurements_ctor ()"]
    setMeasurementsLifetime_contract [of "- 7" "AsfMeasurements_ctor ()"]
    setMeasurementsLifetime_contract [of 1500 "AsfMeasurements_ctor ()"]
  by (simp add: word_sless_alt word_sle_eq)

text \<open>
  C10. A freshly constructed \<open>AsfMeasurements\<close> reports
  \<open>DEFAULT_MEASUREMENTS_LIFETIME\<close> as its measurements lifetime, and that constant is
  five minutes: 300000 milliseconds.
\<close>

theorem default_measurements_lifetime:
  "getMeasurementsLifetime (AsfMeasurements_ctor opts) = DEFAULT_MEASUREMENTS_LIFETIME
   \<and> DEFAULT_MEASUREMENTS_LIFETIME = 300000
   \<and> sint DEFAULT_MEASUREMENTS_LIFETIME = 5 * 60 * 1000"
  by (simp add: getMeasurementsLifetime_def AsfMeasurements_ctor_def
      DEFAULT_MEASUREMENTS_LIFETIME_def minutes_def)

subsection \<open>Extending the lifetime of an entry and its ancestors\<close>

lemma extendLifetimeFrom_root:
  "extendLifetimeFrom now l [] ms = extendEntryLifetime now [] l ms"
  by (simp add: extendLifetimeFrom.simps [of now l "[]" ms] getEntryParent_def)

lemma extendLifetimeFrom_child:
  "me \<noteq> [] \<Longrightarrow>
   extendLifetimeFrom now l me ms =
     extendLifetimeFrom now l (butlast me) (extendEntryLifetime now me l ms)"
  by (simp add: extendLifetimeFrom.simps [of now l me ms] getEntryParent_def)

lemma extendEntryLifetime_apply:
  "extendEntryLifetime now a l ms b =
     (if b = a then map_option (\<lambda>e. max e (now + l)) (ms a) else ms b)"
  by (simp add: extendEntryLifetime_def split: option.splits)

lemma extendLifetimeFrom_other:
  "\<forall>n. q \<noteq> take n me \<Longrightarrow> extendLifetimeFrom now l me ms q = ms q"
proof (induction now l me ms rule: extendLifetimeFrom.induct)
  case (1 now l me ms)
  from "1.prems" have neq: "q \<noteq> me"
    by (metis take_all order_refl)
  show ?case
  proof (cases "me = []")
    case True
    with neq show ?thesis
      by (simp add: extendLifetimeFrom_root extendEntryLifetime_apply)
  next
    case False
    have "\<forall>n. q \<noteq> take n (butlast me)"
    proof
      fix n
      have "take n (butlast me) = take (min n (length me - 1)) me"
        by (simp add: butlast_conv_take)
      with "1.prems" show "q \<noteq> take n (butlast me)" by metis
    qed
    with "1.IH" [of "extendEntryLifetime now me l ms" "butlast me"] False
    have "extendLifetimeFrom now l (butlast me) (extendEntryLifetime now me l ms) q
          = extendEntryLifetime now me l ms q"
      by (simp add: getEntryParent_def)
    also from neq have "\<dots> = ms q"
      by (simp add: extendEntryLifetime_apply)
    finally show ?thesis
      using False by (simp add: extendLifetimeFrom_child)
  qed
qed

lemma extendLifetimeFrom_ancestor:
  "extendLifetimeFrom now l me ms (take n me) =
     map_option (\<lambda>e. max e (now + l)) (ms (take n me))"
proof (induction now l me ms arbitrary: n rule: extendLifetimeFrom.induct)
  case (1 now l me ms)
  show ?case
  proof (cases "me = []")
    case True
    then show ?thesis
      by (simp add: extendLifetimeFrom_root extendEntryLifetime_apply)
  next
    case False
    note ne = this
    show ?thesis
    proof (cases "n < length me")
      case True
      then have tk: "take n me = take n (butlast me)"
        by (simp add: take_butlast)
      from True have neq: "take n me \<noteq> me"
        by (metis length_take min.absorb4 nat_neq_iff)
      from "1.IH" [of "extendEntryLifetime now me l ms" "butlast me" n] ne
      have "extendLifetimeFrom now l (butlast me) (extendEntryLifetime now me l ms)
              (take n (butlast me)) =
            map_option (\<lambda>e. max e (now + l))
              (extendEntryLifetime now me l ms (take n (butlast me)))"
        by (simp add: getEntryParent_def)
      with ne neq tk show ?thesis
        by (simp add: extendLifetimeFrom_child extendEntryLifetime_apply)
    next
      case False
      then have tk: "take n me = me" by simp
      have "\<forall>k. me \<noteq> take k (butlast me)"
      proof
        fix k
        have "length (take k (butlast me)) \<le> length (butlast me)"
          by simp
        also have "\<dots> < length me"
          using ne by simp
        finally have "length (take k (butlast me)) < length me" .
        then show "me \<noteq> take k (butlast me)" by (metis less_irrefl)
      qed
      then have "extendLifetimeFrom now l (butlast me) (extendEntryLifetime now me l ms) me
                 = extendEntryLifetime now me l ms me"
        by (rule extendLifetimeFrom_other)
      with ne tk show ?thesis
        by (simp add: extendLifetimeFrom_child extendEntryLifetime_apply)
    qed
  qed
qed

text \<open>
  C1. \<open>take n me\<close> is the name of the entry \<open>me\<close> itself (\<open>n\<close> at least the length of
  \<open>me\<close>) or of a strict ancestor, down to the root (\<open>n = 0\<close>). For each of them that
  the table holds, \<open>extendLifetime\<close> on \<open>me\<close> extends the expiry to at least the
  configured measurements lifetime from now; an expiry that is already later stays.
\<close>

theorem extendLifetime_ancestors:
  "ms (take n me) = Some expiry \<Longrightarrow>
   extendLifetime m now me ms (take n me)
     = Some (max expiry (now + sint (getMeasurementsLifetime m)))"
  by (simp add: extendLifetime_def getMeasurementsLifetime_def extendLifetimeFrom_ancestor)

theorem extendLifetime_ancestors_witness:
  "[[] \<mapsto> 10, [''a''] \<mapsto> 20, [''a'', ''b''] \<mapsto> 30, [''a'', ''b'', ''c''] \<mapsto> (40::int)]
      (take 2 [''a'', ''b'', ''c'']) = Some 30
   \<and> extendLifetime (AsfMeasurements_ctor ()) 1000 [''a'', ''b'', ''c'']
        [[] \<mapsto> 10, [''a''] \<mapsto> 20, [''a'', ''b''] \<mapsto> 30, [''a'', ''b'', ''c''] \<mapsto> 40]
        [''a'', ''b'', ''c''] = Some 301000
   \<and> extendLifetime (AsfMeasurements_ctor ()) 1000 [''a'', ''b'', ''c'']
        [[] \<mapsto> 10, [''a''] \<mapsto> 20, [''a'', ''b''] \<mapsto> 30, [''a'', ''b'', ''c''] \<mapsto> 40]
        [''a'', ''b''] = Some 301000
   \<and> extendLifetime (AsfMeasurements_ctor ()) 1000 [''a'', ''b'', ''c'']
        [[] \<mapsto> 10, [''a''] \<mapsto> 20, [''a'', ''b''] \<mapsto> 30, [''a'', ''b'', ''c''] \<mapsto> 40]
        [''a''] = Some 301000
   \<and> extendLifetime (AsfMeasurements_ctor ()) 1000 [''a'', ''b'', ''c'']
        [[] \<mapsto> 10, [''a''] \<mapsto> 20, [''a'', ''b''] \<mapsto> 30, [''a'', ''b'', ''c''] \<mapsto> 40]
        [] = Some 301000"
  using
    extendLifetime_ancestors [of "[[] \<mapsto> 10, [''a''] \<mapsto> 20, [''a'', ''b''] \<mapsto> 30,
        [''a'', ''b'', ''c''] \<mapsto> 40]" 3 "[''a'', ''b'', ''c'']" 40 "AsfMeasurements_ctor ()" 1000]
    extendLifetime_ancestors [of "[[] \<mapsto> 10, [''a''] \<mapsto> 20, [''a'', ''b''] \<mapsto> 30,
        [''a'', ''b'', ''c''] \<mapsto> 40]" 2 "[''a'', ''b'', ''c'']" 30 "AsfMeasurements_ctor ()" 1000]
    extendLifetime_ancestors [of "[[] \<mapsto> 10, [''a''] \<mapsto> 20, [''a'', ''b''] \<mapsto> 30,
        [''a'', ''b'', ''c''] \<mapsto> 40]" 1 "[''a'', ''b'', ''c'']" 20 "AsfMeasurements_ctor ()" 1000]
    extendLifetime_ancestors [of "[[] \<mapsto> 10, [''a''] \<mapsto> 20, [''a'', ''b''] \<mapsto> 30,
        [''a'', ''b'', ''c''] \<mapsto> 40]" 0 "[''a'', ''b'', ''c'']" 10 "AsfMeasurements_ctor ()" 1000]
  by (simp add: getMeasurementsLifetime_def AsfMeasurements_ctor_def
      DEFAULT_MEASUREMENTS_LIFETIME_def minutes_def)

end
